theory Spec2Isabelle
  imports Complex_Main "HOL-Library.Word"
begin

section \<open>The lift controller of lift\_control.ino\<close>

text \<open>
  The sketch drives a two-pin H-bridge (outputs \<open>D1\<close> and \<open>D2\<close>) from three blocking
  route handlers, \<open>Forward\<close> (Ground floor), \<open>Backward\<close> (First floor) and \<open>Left\<close>
  (Second floor), each of which polls the ultrasonic sensor through \<open>distance()\<close> until a
  \<open>break\<close> is reached, and from the \<open>/Stop\<close> route.

  Conventions of the embedding.
  \<^item> The globals of the sketch are the fields of the record \<open>lift_state\<close>; the output
    pins are a function from pin to level, written by \<open>digitalWrite\<close> one pin at a time,
    in the order of the source.
  \<^item> \<open>pulseIn(echoPin, HIGH)\<close> is the only input. The environment is the sequence
    \<open>echo\<close> of its results: \<open>echo k\<close> is what the \<open>k\<close>-th call returns (an
    \<open>unsigned long\<close>, 32 bits on the ESP8266; 0 when no echo arrives). The field
    \<open>pulses\<close> counts the calls made so far.
  \<^item> \<open>float\<close> and \<open>double\<close> values are modelled as real numbers. The comparisons of the
    handlers are against constants that binary floating point represents exactly, so they
    are the comparisons made here for every finite \<open>float\<close> sample; the rounding inside
    \<open>distance()\<close> is not modelled.
  \<^item> \<open>delay\<close>, \<open>delayMicroseconds\<close> and the diagnostic \<open>Serial\<close> output are left out.
  \<^item> A \<open>while (true)\<close> loop is a \<open>partial_function\<close> into \<open>option\<close>: \<open>None\<close> is a loop
    that never reaches its \<open>break\<close>.
\<close>

subsection \<open>State\<close>

datatype level = LOW | HIGH

datatype pin = D1 | D2 | trigPin

record lift_state =
  pins :: "pin \<Rightarrow> level"
  duration :: "32 word"
  distanceCm :: real
  distance1 :: real
  page :: string
  page2 :: string
  responses :: "(nat \<times> string \<times> string) list"
  pulses :: nat

definition digitalWrite :: "pin \<Rightarrow> level \<Rightarrow> lift_state \<Rightarrow> lift_state" where
  "digitalWrite p v st = st\<lparr>pins := (pins st)(p := v)\<rparr>"

definition server_send :: "nat \<Rightarrow> string \<Rightarrow> string \<Rightarrow> lift_state \<Rightarrow> lift_state" where
  "server_send code ctype body st = st\<lparr>responses := responses st @ [(code, ctype, body)]\<rparr>"

subsection \<open>The sensor\<close>

definition SOUND_VELOCITY :: real where
  "SOUND_VELOCITY = 0.034"

text \<open>
  The conversion of \<open>distance()\<close>: \<open>duration * SOUND_VELOCITY/2 - 2.5\<close>, where
  \<open>duration\<close> is the \<open>long\<close> that received the result of \<open>pulseIn\<close>.
\<close>

definition distance_of_pulse :: "32 word \<Rightarrow> real" where
  "distance_of_pulse w = real_of_int (sint w) * SOUND_VELOCITY / 2 - 2.5"

definition distance :: "(nat \<Rightarrow> 32 word) \<Rightarrow> lift_state \<Rightarrow> real \<times> lift_state" where
  "distance echo st =
     (let st1 = digitalWrite trigPin LOW st;
          st2 = digitalWrite trigPin HIGH st1;
          st3 = digitalWrite trigPin LOW st2;
          st4 = st3\<lparr>duration := echo (pulses st3), pulses := Suc (pulses st3)\<rparr>;
          st5 = st4\<lparr>distanceCm := distance_of_pulse (duration st4)\<rparr>
      in (distanceCm st5, st5))"

subsection \<open>The handlers\<close>

text \<open>How one pass through a loop body ends: at the \<open>break\<close>, or at the end of the body.\<close>

datatype ctl = Continue | Break

text \<open>
  The \<open>if\<close> chain of each handler, on the sample held in \<open>distance1\<close>. The three chains
  are kept apart, with their writes in the order of the source.
\<close>

definition Forward_body :: "lift_state \<Rightarrow> lift_state \<times> ctl" where
  "Forward_body st =
     (if distance1 st \<ge> 98.5 \<and> distance1 st \<le> 99.5
        then (digitalWrite D1 LOW (digitalWrite D2 LOW st), Break)
      else if distance1 st < 98.5 \<and> distance1 st > 0
        then (digitalWrite D2 HIGH (digitalWrite D1 LOW st), Continue)
      else (digitalWrite D1 LOW (digitalWrite D2 LOW st), Continue))"

definition Backward_body :: "lift_state \<Rightarrow> lift_state \<times> ctl" where
  "Backward_body st =
     (if distance1 st \<ge> 71 \<and> distance1 st \<le> 71.5
        then (digitalWrite D1 LOW (digitalWrite D2 LOW st), Break)
      else if distance1 st < 71 \<and> distance1 st > 0
        then (digitalWrite D2 HIGH (digitalWrite D1 LOW st), Continue)
      else if distance1 st > 71.5
        then (digitalWrite D2 LOW (digitalWrite D1 HIGH st), Continue)
      else (digitalWrite D1 LOW (digitalWrite D2 LOW st), Continue))"

definition Left_body :: "lift_state \<Rightarrow> lift_state \<times> ctl" where
  "Left_body st =
     (if distance1 st \<ge> 38 \<and> distance1 st \<le> 39
        then (digitalWrite D1 LOW (digitalWrite D2 LOW st), Break)
      else if distance1 st > 0 \<and> distance1 st < 38
        then (digitalWrite D1 LOW (digitalWrite D2 HIGH st), Continue)
      else if distance1 st > 39
        then (digitalWrite D2 LOW (digitalWrite D1 HIGH st), Continue)
      else (digitalWrite D1 LOW (digitalWrite D2 LOW st), Break))"

text \<open>One iteration: \<open>distance1 = distance();\<close> followed by the \<open>if\<close> chain.\<close>

definition read_sample :: "(nat \<Rightarrow> 32 word) \<Rightarrow> lift_state \<Rightarrow> lift_state" where
  "read_sample echo st = (let (d, st1) = distance echo st in st1\<lparr>distance1 := d\<rparr>)"

definition Forward_iteration :: "(nat \<Rightarrow> 32 word) \<Rightarrow> lift_state \<Rightarrow> lift_state \<times> ctl" where
  "Forward_iteration echo st = Forward_body (read_sample echo st)"

definition Backward_iteration :: "(nat \<Rightarrow> 32 word) \<Rightarrow> lift_state \<Rightarrow> lift_state \<times> ctl" where
  "Backward_iteration echo st = Backward_body (read_sample echo st)"

definition Left_iteration :: "(nat \<Rightarrow> 32 word) \<Rightarrow> lift_state \<Rightarrow> lift_state \<times> ctl" where
  "Left_iteration echo st = Left_body (read_sample echo st)"

text \<open>The \<open>while (true)\<close> loops.\<close>

partial_function (option) Forward_loop :: "(nat \<Rightarrow> 32 word) \<Rightarrow> lift_state \<Rightarrow> lift_state option" where
  "Forward_loop echo st =
     (let (st', c) = Forward_iteration echo st
      in if c = Break then Some st' else Forward_loop echo st')"

partial_function (option) Backward_loop :: "(nat \<Rightarrow> 32 word) \<Rightarrow> lift_state \<Rightarrow> lift_state option" where
  "Backward_loop echo st =
     (let (st', c) = Backward_iteration echo st
      in if c = Break then Some st' else Backward_loop echo st')"

partial_function (option) Left_loop :: "(nat \<Rightarrow> 32 word) \<Rightarrow> lift_state \<Rightarrow> lift_state option" where
  "Left_loop echo st =
     (let (st', c) = Left_iteration echo st
      in if c = Break then Some st' else Left_loop echo st')"

text \<open>What follows each loop: the status fragment is stored in \<open>page2\<close> and the page is sent.\<close>

definition report :: "string \<Rightarrow> lift_state \<Rightarrow> lift_state" where
  "report msg st =
     (let st1 = st\<lparr>page2 := msg\<rparr>
      in server_send 200 ''text/html'' (page st1 @ page2 st1) st1)"

definition Forward :: "(nat \<Rightarrow> 32 word) \<Rightarrow> lift_state \<Rightarrow> lift_state option" where
  "Forward echo st =
     map_option
       (report ''<center><p> Lift Status : Lift has reached the Ground Floor </p></center>'')
       (Forward_loop echo st)"

definition Backward :: "(nat \<Rightarrow> 32 word) \<Rightarrow> lift_state \<Rightarrow> lift_state option" where
  "Backward echo st =
     map_option
       (report ''<center><p> Lift Status : Lift has reached the First Floor </p></center>'')
       (Backward_loop echo st)"

definition Left :: "(nat \<Rightarrow> 32 word) \<Rightarrow> lift_state \<Rightarrow> lift_state option" where
  "Left echo st =
     map_option
       (report ''<center><p> Lift Status : Lift has reached the Second Floor </p></center>'')
       (Left_loop echo st)"

text \<open>The \<open>/Stop\<close> route: the fragment, the response, then the two writes.\<close>

definition Stop :: "lift_state \<Rightarrow> lift_state" where
  "Stop st =
     (let st1 = st\<lparr>page2 := ''<center><p> motor 1 Status : Off</p></center>''\<rparr>;
          st2 = server_send 200 ''text/html'' (page st1 @ page2 st1) st1
      in digitalWrite D1 LOW (digitalWrite D2 LOW st2))"

subsection \<open>Targets\<close>

text \<open>
  The page built in \<open>setup\<close> labels the routes: \<open>Forward\<close> is the button "Ground Floor",
  \<open>Backward\<close> is "First Floor", \<open>Left\<close> is "Second Floor".
\<close>

datatype target = Ground | First | Second

fun seek_body :: "target \<Rightarrow> lift_state \<Rightarrow> lift_state \<times> ctl" where
  "seek_body Ground = Forward_body"
| "seek_body First = Backward_body"
| "seek_body Second = Left_body"

fun seek_iteration :: "target \<Rightarrow> (nat \<Rightarrow> 32 word) \<Rightarrow> lift_state \<Rightarrow> lift_state \<times> ctl" where
  "seek_iteration Ground = Forward_iteration"
| "seek_iteration First = Backward_iteration"
| "seek_iteration Second = Left_iteration"

fun seek_loop :: "target \<Rightarrow> (nat \<Rightarrow> 32 word) \<Rightarrow> lift_state \<Rightarrow> lift_state option" where
  "seek_loop Ground = Forward_loop"
| "seek_loop First = Backward_loop"
| "seek_loop Second = Left_loop"

fun seek :: "target \<Rightarrow> (nat \<Rightarrow> 32 word) \<Rightarrow> lift_state \<Rightarrow> lift_state option" where
  "seek Ground = Forward"
| "seek First = Backward"
| "seek Second = Left"

text \<open>The tolerance band of each target, as the specification tabulates it.\<close>

fun band_lo :: "target \<Rightarrow> real" where
  "band_lo Ground = 98.5"
| "band_lo First = 71"
| "band_lo Second = 38"

fun band_hi :: "target \<Rightarrow> real" where
  "band_hi Ground = 99.5"
| "band_hi First = 71.5"
| "band_hi Second = 39"

fun status_message :: "target \<Rightarrow> string" where
  "status_message Ground = ''<center><p> Lift Status : Lift has reached the Ground Floor </p></center>''"
| "status_message First = ''<center><p> Lift Status : Lift has reached the First Floor </p></center>''"
| "status_message Second = ''<center><p> Lift Status : Lift has reached the Second Floor </p></center>''"

text \<open>The three motor commands, as predicates on the output pins.\<close>

definition stopped :: "lift_state \<Rightarrow> bool" where
  "stopped st \<longleftrightarrow> pins st D1 = LOW \<and> pins st D2 = LOW"

definition increasing :: "lift_state \<Rightarrow> bool" where
  "increasing st \<longleftrightarrow> pins st D2 = HIGH \<and> pins st D1 = LOW"

definition decreasing :: "lift_state \<Rightarrow> bool" where
  "decreasing st \<longleftrightarrow> pins st D1 = HIGH \<and> pins st D2 = LOW"

definition in_band :: "target \<Rightarrow> real \<Rightarrow> bool" where
  "in_band t s \<longleftrightarrow> band_lo t \<le> s \<and> s \<le> band_hi t"

text \<open>
  A state to run the handlers from: the page as \<open>setup\<close> builds it, the other globals
  at their initial values, the pins low.
\<close>

definition setup_page :: string where
  \<open>setup_page = ''<center><h1>Lift Control using Web Server</h1><body><p><a href="Forward"><button>Ground Floor</button></a><p><a href="Backward"><button>First Floor</button></a></p><p><a href="Left"><button>Second Floor</button></a></p><a href="Stop"><button>Stop</button></a></p></body></center>''\<close>

definition boot :: lift_state where
  "boot = \<lparr>pins = (\<lambda>_. LOW), duration = 0, distanceCm = 0, distance1 = 0,
           page = setup_page, page2 = [], responses = [], pulses = 0\<rparr>"

section \<open>Basic facts\<close>

lemma pins_digitalWrite [simp]:
  "pins (digitalWrite p v st) q = (if q = p then v else pins st q)"
  by (simp add: digitalWrite_def)

lemma digitalWrite_fields [simp]:
  "distance1 (digitalWrite p v st) = distance1 st"
  "pulses (digitalWrite p v st) = pulses st"
  "page (digitalWrite p v st) = page st"
  "page2 (digitalWrite p v st) = page2 st"
  "responses (digitalWrite p v st) = responses st"
  by (simp_all add: digitalWrite_def)

lemma read_sample_fields [simp]:
  "distance1 (read_sample echo st) = distance_of_pulse (echo (pulses st))"
  "pulses (read_sample echo st) = Suc (pulses st)"
  "pins (read_sample echo st) D1 = pins st D1"
  "pins (read_sample echo st) D2 = pins st D2"
  "page (read_sample echo st) = page st"
  "page2 (read_sample echo st) = page2 st"
  "responses (read_sample echo st) = responses st"
  by (simp_all add: read_sample_def distance_def Let_def)

lemmas body_defs = Forward_body_def Backward_body_def Left_body_def
lemmas iteration_defs = Forward_iteration_def Backward_iteration_def Left_iteration_def
lemmas command_defs = stopped_def increasing_def decreasing_def

lemma seek_iteration_body: "seek_iteration t echo st = seek_body t (read_sample echo st)"
  by (cases t) (simp_all add: iteration_defs)

lemma seek_loop_unfold:
  "seek_loop t echo st =
     (let (st', c) = seek_iteration t echo st
      in if c = Break then Some st' else seek_loop t echo st')"
proof (cases t)
  case Ground
  show ?thesis unfolding Ground seek_loop.simps seek_iteration.simps
    by (rule Forward_loop.simps)
next
  case First
  show ?thesis unfolding First seek_loop.simps seek_iteration.simps
    by (rule Backward_loop.simps)
next
  case Second
  show ?thesis unfolding Second seek_loop.simps seek_iteration.simps
    by (rule Left_loop.simps)
qed

lemma seek_body_pulses [simp]: "pulses (fst (seek_body t st)) = pulses st"
  by (cases t) (simp_all add: body_defs)

lemma distance_of_no_echo: "distance_of_pulse 0 = - 2.5"
  by (simp add: distance_of_pulse_def SOUND_VELOCITY_def)

lemma Left_loop_no_echo:
  "Left_loop (\<lambda>_. 0) boot = Some (fst (Left_iteration (\<lambda>_. 0) boot))"
proof -
  have "snd (Left_iteration (\<lambda>_. 0) boot) = Break"
    by (simp add: Left_iteration_def Left_body_def distance_of_no_echo)
  then show ?thesis
    by (subst Left_loop.simps) (simp add: split_beta)
qed

section \<open>Arrival inside the band\<close>

lemma in_band_body:
  assumes "band_lo t < distance1 st" and "distance1 st < band_hi t"
  shows "stopped (fst (seek_body t st)) \<and> snd (seek_body t st) = Break"
  using assms by (cases t) (simp_all add: body_defs command_defs)

text \<open>
  Claim C1. For each of the three targets and every sample \<open>s\<close> strictly inside the
  target's band, the \<open>if\<close> chain writes both outputs low and reaches the \<open>break\<close>; and
  when that sample is the one the sensor delivers next, the loop returns after exactly that
  one reading, with the motor stopped.
\<close>

theorem seek_in_band_arrives:
  assumes "band_lo t < s" and "s < band_hi t"
  shows "(distance1 st = s \<longrightarrow>
            stopped (fst (seek_body t st)) \<and> snd (seek_body t st) = Break) \<and>
         (distance_of_pulse (echo (pulses st0)) = s \<longrightarrow>
            (\<exists>st'. seek_loop t echo st0 = Some st' \<and> stopped st' \<and>
                   pulses st' = Suc (pulses st0)))"
proof (intro conjI impI)
  assume "distance1 st = s"
  with assms show "stopped (fst (seek_body t st))" using in_band_body [of t st] by simp
next
  assume "distance1 st = s"
  with assms show "snd (seek_body t st) = Break" using in_band_body [of t st] by simp
next
  assume s: "distance_of_pulse (echo (pulses st0)) = s"
  let ?st = "read_sample echo st0"
  from s assms have "band_lo t < distance1 ?st" "distance1 ?st < band_hi t" by simp_all
  then have b: "stopped (fst (seek_body t ?st)) \<and> snd (seek_body t ?st) = Break"
    by (rule in_band_body)
  have "seek_loop t echo st0 = Some (fst (seek_body t ?st))"
    using b by (subst seek_loop_unfold) (simp add: seek_iteration_body split_beta)
  with b show "\<exists>st'. seek_loop t echo st0 = Some st' \<and> stopped st' \<and> pulses st' = Suc (pulses st0)"
    by simp
qed

text \<open>An echo of 5971 microseconds is 99.007 cm, inside the Ground band.\<close>

theorem seek_in_band_arrives_witness:
  "band_lo Ground < 99.007 \<and> 99.007 < band_hi Ground \<and>
   distance_of_pulse ((\<lambda>_. 5971) (pulses boot)) = 99.007 \<and>
   stopped (fst (seek_body Ground (boot\<lparr>distance1 := 99.007\<rparr>))) \<and>
   snd (seek_body Ground (boot\<lparr>distance1 := 99.007\<rparr>)) = Break \<and>
   (\<exists>st'. seek_loop Ground (\<lambda>_. 5971) boot = Some st' \<and> stopped st' \<and>
          pulses st' = Suc (pulses boot))"
proof -
  have s: "distance_of_pulse ((\<lambda>_. 5971) (pulses boot)) = 99.007"
    by (simp add: distance_of_pulse_def SOUND_VELOCITY_def)
  have b: "band_lo Ground < 99.007" "99.007 < band_hi Ground" by simp_all
  show ?thesis
    using seek_in_band_arrives [OF b, of "boot\<lparr>distance1 := 99.007\<rparr>" "\<lambda>_. 5971" boot] s b
    by simp
qed

section \<open>Non-positive samples\<close>

text \<open>
  \<open>Forward\<close> and \<open>Backward\<close> answer a non-positive sample with the stop command and go
  round the loop again.
\<close>

lemma nonpositive_Ground_First_continue:
  assumes "distance1 st \<le> 0" and "t = Ground \<or> t = First"
  shows "stopped (fst (seek_body t st)) \<and> snd (seek_body t st) = Continue"
  using assms by (auto simp add: body_defs command_defs)

text \<open>The last branch of \<open>Left\<close> ends in \<open>break\<close>: there a non-positive sample leaves the loop.\<close>

lemma nonpositive_Second_breaks:
  assumes "distance1 st \<le> 0"
  shows "stopped (fst (Left_body st)) \<and> snd (Left_body st) = Break"
  using assms by (simp add: body_defs command_defs)

text \<open>
  Claim C2. Every non-positive sample is to stop the motor and keep the loop sampling. In
  \<open>Left\<close> it does not: when \<open>pulseIn\<close> times out (returns 0) the sample is \<open>-2.5\<close>, the
  first iteration of the Second-floor handler ends at the \<open>break\<close>, and the handler
  returns after that single reading, reporting that the lift has reached the Second Floor.
\<close>

theorem Left_breaks_on_missing_echo:
  "distance_of_pulse 0 \<le> 0 \<and>
   snd (seek_iteration Second (\<lambda>_. 0) boot) = Break \<and>
   map_option pulses (seek Second (\<lambda>_. 0) boot) = Some 1 \<and>
   map_option page2 (seek Second (\<lambda>_. 0) boot) =
     Some ''<center><p> Lift Status : Lift has reached the Second Floor </p></center>''"
proof -
  have "pulses boot = 0" by (simp add: boot_def)
  then show ?thesis
    by (simp add: Left_def Left_loop_no_echo distance_of_no_echo report_def server_send_def
        Let_def Left_iteration_def Left_body_def)
qed

section \<open>Loops that never return\<close>

text \<open>
  A loop that returns has met a sample that ends it: for \<open>Forward\<close> and \<open>Backward\<close> a
  sample inside the band, for \<open>Left\<close> a sample inside the band or a non-positive one. Each
  is proved by the induction rule of the partial function.
\<close>

lemma loop_step:
  assumes IH: "\<And>st r. loop st = Some r \<Longrightarrow> \<exists>k\<ge>pulses st. Q k"
    and eq: "(let (st', c) = iter st in if c = Break then Some st' else loop st') = Some r"
    and brk: "snd (iter st) = Break \<Longrightarrow> Q (pulses st)"
    and adv: "pulses (fst (iter st)) = Suc (pulses st)"
  shows "\<exists>k\<ge>pulses st. Q k"
proof (cases "snd (iter st) = Break")
  case True
  then have "Q (pulses st)" by (rule brk)
  then show ?thesis by (intro exI [of _ "pulses st"]) simp
next
  case False
  with eq have "loop (fst (iter st)) = Some r"
    by (simp add: split_beta)
  from IH [OF this] obtain k where k: "k \<ge> pulses (fst (iter st))" and q: "Q k"
    by (elim exE conjE)
  from k adv have "k \<ge> pulses st" by simp
  with q show ?thesis by (intro exI [of _ k]) simp
qed

lemma Forward_loop_Some:
  assumes "Forward_loop echo st = Some r"
  shows "\<exists>k\<ge>pulses st. in_band Ground (distance_of_pulse (echo k))"
proof (rule Forward_loop.raw_induct
    [where P = "\<lambda>echo st r. \<exists>k\<ge>pulses st. in_band Ground (distance_of_pulse (echo k))",
      OF _ assms])
  fix loop echo st r
  assume IH: "\<And>echo st r. loop echo st = Some r \<Longrightarrow>
                \<exists>k\<ge>pulses st. in_band Ground (distance_of_pulse (echo k))"
    and eq: "(let (st', c) = Forward_iteration echo st
              in if c = Break then Some st' else loop echo st') = Some (r :: lift_state)"
  show "\<exists>k\<ge>pulses st. in_band Ground (distance_of_pulse (echo k))"
  proof (rule loop_step [where loop = "loop echo" and iter = "Forward_iteration echo" and r = r
        and Q = "\<lambda>k. in_band Ground (distance_of_pulse (echo k))"])
    show "\<And>st r. loop echo st = Some r \<Longrightarrow>
            \<exists>k\<ge>pulses st. in_band Ground (distance_of_pulse (echo k))"
      by (rule IH)
    show "(let (st', c) = Forward_iteration echo st
           in if c = Break then Some st' else loop echo st') = Some r"
      by (rule eq)
    show "snd (Forward_iteration echo st) = Break \<Longrightarrow>
            in_band Ground (distance_of_pulse (echo (pulses st)))"
      by (simp add: Forward_iteration_def Forward_body_def in_band_def split: if_splits)
    show "pulses (fst (Forward_iteration echo st)) = Suc (pulses st)"
      by (simp add: Forward_iteration_def Forward_body_def)
  qed
qed

lemma Backward_loop_Some:
  assumes "Backward_loop echo st = Some r"
  shows "\<exists>k\<ge>pulses st. in_band First (distance_of_pulse (echo k))"
proof (rule Backward_loop.raw_induct
    [where P = "\<lambda>echo st r. \<exists>k\<ge>pulses st. in_band First (distance_of_pulse (echo k))",
      OF _ assms])
  fix loop echo st r
  assume IH: "\<And>echo st r. loop echo st = Some r \<Longrightarrow>
                \<exists>k\<ge>pulses st. in_band First (distance_of_pulse (echo k))"
    and eq: "(let (st', c) = Backward_iteration echo st
              in if c = Break then Some st' else loop echo st') = Some (r :: lift_state)"
  show "\<exists>k\<ge>pulses st. in_band First (distance_of_pulse (echo k))"
  proof (rule loop_step [where loop = "loop echo" and iter = "Backward_iteration echo" and r = r
        and Q = "\<lambda>k. in_band First (distance_of_pulse (echo k))"])
    show "\<And>st r. loop echo st = Some r \<Longrightarrow>
            \<exists>k\<ge>pulses st. in_band First (distance_of_pulse (echo k))"
      by (rule IH)
    show "(let (st', c) = Backward_iteration echo st
           in if c = Break then Some st' else loop echo st') = Some r"
      by (rule eq)
    show "snd (Backward_iteration echo st) = Break \<Longrightarrow>
            in_band First (distance_of_pulse (echo (pulses st)))"
      by (simp add: Backward_iteration_def Backward_body_def in_band_def split: if_splits)
    show "pulses (fst (Backward_iteration echo st)) = Suc (pulses st)"
      by (simp add: Backward_iteration_def Backward_body_def)
  qed
qed

lemma Left_loop_Some:
  assumes "Left_loop echo st = Some r"
  shows "\<exists>k\<ge>pulses st. in_band Second (distance_of_pulse (echo k)) \<or>
                         distance_of_pulse (echo k) \<le> 0"
proof (rule Left_loop.raw_induct
    [where P = "\<lambda>echo st r. \<exists>k\<ge>pulses st. in_band Second (distance_of_pulse (echo k)) \<or>
                         distance_of_pulse (echo k) \<le> 0",
      OF _ assms])
  fix loop echo st r
  assume IH: "\<And>echo st r. loop echo st = Some r \<Longrightarrow>
                \<exists>k\<ge>pulses st. in_band Second (distance_of_pulse (echo k)) \<or>
                         distance_of_pulse (echo k) \<le> 0"
    and eq: "(let (st', c) = Left_iteration echo st
              in if c = Break then Some st' else loop echo st') = Some (r :: lift_state)"
  show "\<exists>k\<ge>pulses st. in_band Second (distance_of_pulse (echo k)) \<or>
                         distance_of_pulse (echo k) \<le> 0"
  proof (rule loop_step [where loop = "loop echo" and iter = "Left_iteration echo" and r = r
        and Q = "\<lambda>k. in_band Second (distance_of_pulse (echo k)) \<or> distance_of_pulse (echo k) \<le> 0"])
    show "\<And>st r. loop echo st = Some r \<Longrightarrow>
            \<exists>k\<ge>pulses st. in_band Second (distance_of_pulse (echo k)) \<or> distance_of_pulse (echo k) \<le> 0"
      by (rule IH)
    show "(let (st', c) = Left_iteration echo st
           in if c = Break then Some st' else loop echo st') = Some r"
      by (rule eq)
    show "snd (Left_iteration echo st) = Break \<Longrightarrow>
            in_band Second (distance_of_pulse (echo (pulses st))) \<or>
            distance_of_pulse (echo (pulses st)) \<le> 0"
      by (simp add: Left_iteration_def Left_body_def in_band_def split: if_splits)
    show "pulses (fst (Left_iteration echo st)) = Suc (pulses st)"
      by (simp add: Left_iteration_def Left_body_def)
  qed
qed

lemma seek_loop_never_returns:
  assumes "\<forall>k. \<not> in_band t (distance_of_pulse (echo k))"
    and "t = Second \<longrightarrow> (\<forall>k. 0 < distance_of_pulse (echo k))"
  shows "seek_loop t echo st = None \<and> seek t echo st = None"
proof -
  have "seek_loop t echo st = None"
  proof (cases "seek_loop t echo st")
    case None
    then show ?thesis .
  next
    case (Some r)
    have False
    proof (cases t)
      case Ground
      with Some have "Forward_loop echo st = Some r" by simp
      from Forward_loop_Some [OF this] assms(1) Ground show False by blast
    next
      case First
      with Some have "Backward_loop echo st = Some r" by simp
      from Backward_loop_Some [OF this] assms(1) First show False by blast
    next
      case Second
      with Some have "Left_loop echo st = Some r" by simp
      from Left_loop_Some [OF this] obtain k
        where "in_band Second (distance_of_pulse (echo k)) \<or> distance_of_pulse (echo k) \<le> 0"
        by blast
      moreover from assms(1) Second have "\<not> in_band Second (distance_of_pulse (echo k))"
        by simp
      moreover from assms(2) Second have "0 < distance_of_pulse (echo k)" by simp
      ultimately show False by simp
    qed
    then show ?thesis ..
  qed
  then show ?thesis
    by (cases t) (simp_all add: Forward_def Backward_def Left_def)
qed

text \<open>With a sensor that never answers, the Ground-floor handler never returns.\<close>

lemma Forward_never_returns_without_echo: "Forward (\<lambda>_. 0) boot = None"
proof -
  have "\<forall>k. \<not> in_band Ground (distance_of_pulse ((\<lambda>_. 0) k))"
    by (simp add: in_band_def distance_of_no_echo)
  then show ?thesis
    using seek_loop_never_returns [of Ground "\<lambda>_. 0" boot] by simp
qed

text \<open>
  Claim C3. With no sample ever inside the band, no handler is to return. The Second-floor
  handler does return: with a sensor that never answers, every sample is \<open>-2.5\<close>, none is
  inside the band from 38 to 39, and \<open>Left\<close> leaves its loop at the first one.
\<close>

theorem Left_leaves_loop_out_of_band:
  "(\<forall>k. \<not> in_band Second (distance_of_pulse ((\<lambda>_. 0) k))) \<and>
   seek_loop Second (\<lambda>_. 0) boot \<noteq> None \<and> seek Second (\<lambda>_. 0) boot \<noteq> None"
  by (simp add: Left_def Left_loop_no_echo in_band_def distance_of_no_echo)

section \<open>Samples above the band\<close>

lemma seek_iteration_pulses: "pulses (fst (seek_iteration t echo st)) = Suc (pulses st)"
  by (simp add: seek_iteration_body)

text \<open>
  The bands are closed, so on the \<open>if\<close> chain alone a \<open>distance1\<close> equal to the upper
  bound takes the first branch and stops the motor.
\<close>

lemma upper_bound_in_closed_band:
  assumes "distance1 st = band_hi t"
  shows "stopped (fst (seek_body t st)) \<and> snd (seek_body t st) = Break"
  using assms by (cases t) (simp_all add: body_defs command_defs)

text \<open>
  The sensor never delivers that value for the two targets that have a branch above the
  band: a sample is \<open>duration * 0.017 - 2.5\<close> for an integer duration, and neither 74000
  nor 41500 is a multiple of 17.
\<close>

lemma pulse_off_upper_bound:
  "distance_of_pulse w \<noteq> 71.5" "distance_of_pulse w \<noteq> 39"
proof -
  have a: "sint w * 17 \<noteq> 74000" by presburger
  have b: "sint w * 17 \<noteq> 41500" by presburger
  show "distance_of_pulse w \<noteq> 71.5"
  proof
    assume "distance_of_pulse w = 71.5"
    then have "real_of_int (sint w * 17) = real_of_int 74000"
      by (simp add: distance_of_pulse_def SOUND_VELOCITY_def)
    then have "sint w * 17 = 74000" by (simp only: of_int_eq_iff)
    with a show False ..
  qed
  show "distance_of_pulse w \<noteq> 39"
  proof
    assume "distance_of_pulse w = 39"
    then have "real_of_int (sint w * 17) = real_of_int 41500"
      by (simp add: distance_of_pulse_def SOUND_VELOCITY_def)
    then have "sint w * 17 = 41500" by (simp only: of_int_eq_iff)
    with b show False ..
  qed
qed

lemma above_band_body:
  assumes "t \<noteq> Ground" and "band_hi t < distance1 st"
  shows "decreasing (fst (seek_body t st)) \<and> snd (seek_body t st) = Continue"
  using assms by (cases t) (simp_all add: body_defs command_defs)

lemma Forward_body_D1: "pins (fst (Forward_body st)) D1 = LOW"
  by (simp add: body_defs)

text \<open>
  Claim C4. For First and Second, the two targets that enforce an upper bound, an iteration
  whose sample is at or above the upper bound of the band reads the sensor once, leaves
  \<open>D1\<close> high and \<open>D2\<close> low and goes round the loop again. For Ground, which has no branch
  above the band, no iteration, whatever the sensor delivers and whatever the state before,
  leaves the outputs at the decreasing-distance command: \<open>D1\<close> is low after each one.
\<close>

theorem at_or_above_band_decreasing:
  "(t \<noteq> Ground \<longrightarrow> band_hi t \<le> distance_of_pulse (echo (pulses st)) \<longrightarrow>
      decreasing (fst (seek_iteration t echo st)) \<and>
      snd (seek_iteration t echo st) = Continue \<and>
      pulses (fst (seek_iteration t echo st)) = Suc (pulses st)) \<and>
   \<not> decreasing (fst (seek_iteration Ground echo2 st2)) \<and>
   pins (fst (seek_iteration Ground echo2 st2)) D1 = LOW"
proof (intro conjI impI)
  assume t: "t \<noteq> Ground" and le: "band_hi t \<le> distance_of_pulse (echo (pulses st))"
  have "distance_of_pulse (echo (pulses st)) \<noteq> band_hi t"
    using t pulse_off_upper_bound [of "echo (pulses st)"] by (cases t) simp_all
  with le have "band_hi t < distance1 (read_sample echo st)" by simp
  with t have b: "decreasing (fst (seek_body t (read_sample echo st))) \<and>
      snd (seek_body t (read_sample echo st)) = Continue"
    by (rule above_band_body)
  then show "decreasing (fst (seek_iteration t echo st))"
    and "snd (seek_iteration t echo st) = Continue"
    by (simp_all add: seek_iteration_body)
  show "pulses (fst (seek_iteration t echo st)) = Suc (pulses st)"
    by (rule seek_iteration_pulses)
next
  show d1: "pins (fst (seek_iteration Ground echo2 st2)) D1 = LOW"
    by (simp add: Forward_iteration_def Forward_body_D1)
  then show "\<not> decreasing (fst (seek_iteration Ground echo2 st2))"
    by (simp add: decreasing_def)
qed

text \<open>An echo of 5000 microseconds is 82.5 cm, above the First band.\<close>

theorem at_or_above_band_decreasing_witness:
  "First \<noteq> Ground \<and> band_hi First \<le> distance_of_pulse ((\<lambda>_. 5000) (pulses boot)) \<and>
   decreasing (fst (seek_iteration First (\<lambda>_. 5000) boot)) \<and>
   snd (seek_iteration First (\<lambda>_. 5000) boot) = Continue \<and>
   pulses (fst (seek_iteration First (\<lambda>_. 5000) boot)) = Suc (pulses boot) \<and>
   \<not> decreasing (fst (seek_iteration Ground (\<lambda>_. 7000) boot))"
proof -
  have d: "band_hi First \<le> distance_of_pulse ((\<lambda>_. 5000) (pulses boot))"
    by (simp add: distance_of_pulse_def SOUND_VELOCITY_def)
  show ?thesis
    using at_or_above_band_decreasing [of First "\<lambda>_. 5000" boot "\<lambda>_. 7000" boot] d
    by simp
qed

section \<open>The Ground floor\<close>

text \<open>
  An echo of 3088 microseconds is 49.996 cm, positive and below the Ground band. The
  iteration of \<open>Forward\<close> that reads it drives the motor (\<open>D2\<close> high); it does not brake.
\<close>

theorem Forward_below_band_drives:
  "0 < distance_of_pulse ((\<lambda>_. 3088) (pulses boot)) \<and>
   distance_of_pulse ((\<lambda>_. 3088) (pulses boot)) < band_lo Ground \<and>
   \<not> stopped (fst (seek_iteration Ground (\<lambda>_. 3088) boot)) \<and>
   pins (fst (seek_iteration Ground (\<lambda>_. 3088) boot)) D2 = HIGH"
  by (simp add: Forward_iteration_def Forward_body_def stopped_def distance_of_pulse_def
      SOUND_VELOCITY_def)

lemma Forward_brake_body:
  assumes "band_hi Ground < distance1 st \<or> distance1 st \<le> 0"
  shows "stopped (fst (Forward_body st)) \<and> snd (Forward_body st) = Continue"
  using assms by (auto simp add: body_defs command_defs)

text \<open>
  Claim C5, amended. An iteration of the Ground handler whose sample is above the band, or
  non-positive, reads the sensor once, leaves both outputs low (the stop command only) and
  goes round the loop again; and whatever the sample and the state before, an iteration of
  the Ground handler leaves \<open>D1\<close> low, so the handler never reverses.
\<close>

theorem Forward_brakes_never_reverses:
  "(band_hi Ground < distance_of_pulse (echo (pulses st)) \<or>
    distance_of_pulse (echo (pulses st)) \<le> 0 \<longrightarrow>
      stopped (fst (seek_iteration Ground echo st)) \<and>
      snd (seek_iteration Ground echo st) = Continue \<and>
      pulses (fst (seek_iteration Ground echo st)) = Suc (pulses st)) \<and>
   pins (fst (seek_iteration Ground echo2 st2)) D1 = LOW"
proof (intro conjI impI)
  assume "band_hi Ground < distance_of_pulse (echo (pulses st)) \<or>
    distance_of_pulse (echo (pulses st)) \<le> 0"
  then have "band_hi Ground < distance1 (read_sample echo st) \<or> distance1 (read_sample echo st) \<le> 0"
    by simp
  then have "stopped (fst (Forward_body (read_sample echo st))) \<and>
      snd (Forward_body (read_sample echo st)) = Continue"
    by (rule Forward_brake_body)
  then show "stopped (fst (seek_iteration Ground echo st))"
    and "snd (seek_iteration Ground echo st) = Continue"
    by (simp_all add: Forward_iteration_def)
  show "pulses (fst (seek_iteration Ground echo st)) = Suc (pulses st)"
    by (rule seek_iteration_pulses)
next
  show "pins (fst (seek_iteration Ground echo2 st2)) D1 = LOW"
    by (simp add: Forward_iteration_def Forward_body_D1)
qed

text \<open>An echo of 7000 microseconds is 116.5 cm, above the Ground band.\<close>

theorem Forward_brakes_never_reverses_witness:
  "band_hi Ground < distance_of_pulse ((\<lambda>_. 7000) (pulses boot)) \<and>
   stopped (fst (seek_iteration Ground (\<lambda>_. 7000) boot)) \<and>
   snd (seek_iteration Ground (\<lambda>_. 7000) boot) = Continue \<and>
   pulses (fst (seek_iteration Ground (\<lambda>_. 7000) boot)) = Suc (pulses boot) \<and>
   pins (fst (seek_iteration Ground (\<lambda>_. 3088) boot)) D1 = LOW"
proof -
  have d: "band_hi Ground < distance_of_pulse ((\<lambda>_. 7000) (pulses boot))"
    by (simp add: distance_of_pulse_def SOUND_VELOCITY_def)
  show ?thesis
    using Forward_brakes_never_reverses [of "\<lambda>_. 7000" boot "\<lambda>_. 3088" boot] d
    by simp
qed

section \<open>Samples below the band\<close>

lemma below_band_body:
  assumes "0 < distance1 st" and "distance1 st < band_lo t"
  shows "increasing (fst (seek_body t st)) \<and> snd (seek_body t st) = Continue"
  using assms by (cases t) (simp_all add: body_defs command_defs)

text \<open>
  Claim C6. For each of the three targets, an iteration whose sample is positive and
  strictly below the lower bound of the band reads the sensor once, leaves \<open>D2\<close> high and
  \<open>D1\<close> low, and goes round the loop again.
\<close>

theorem below_band_increasing:
  assumes "0 < distance_of_pulse (echo (pulses st))"
    and "distance_of_pulse (echo (pulses st)) < band_lo t"
  shows "increasing (fst (seek_iteration t echo st)) \<and>
         snd (seek_iteration t echo st) = Continue \<and>
         pulses (fst (seek_iteration t echo st)) = Suc (pulses st)"
proof -
  from assms have "0 < distance1 (read_sample echo st)"
    and "distance1 (read_sample echo st) < band_lo t" by simp_all
  then have "increasing (fst (seek_body t (read_sample echo st))) \<and>
      snd (seek_body t (read_sample echo st)) = Continue"
    by (rule below_band_body)
  then show ?thesis
    by (simp add: seek_iteration_body)
qed

text \<open>An echo of 1000 microseconds is 14.5 cm, below the Second band.\<close>

theorem below_band_increasing_witness:
  "0 < distance_of_pulse ((\<lambda>_. 1000) (pulses boot)) \<and>
   distance_of_pulse ((\<lambda>_. 1000) (pulses boot)) < band_lo Second \<and>
   increasing (fst (seek_iteration Second (\<lambda>_. 1000) boot)) \<and>
   snd (seek_iteration Second (\<lambda>_. 1000) boot) = Continue \<and>
   pulses (fst (seek_iteration Second (\<lambda>_. 1000) boot)) = Suc (pulses boot)"
proof -
  have d: "0 < distance_of_pulse ((\<lambda>_. 1000) (pulses boot))"
    "distance_of_pulse ((\<lambda>_. 1000) (pulses boot)) < band_lo Second"
    by (simp_all add: distance_of_pulse_def SOUND_VELOCITY_def)
  show ?thesis
    using below_band_increasing [OF d] d by simp
qed

section \<open>The outputs after a command\<close>

text \<open>
  Claim C7. From any prior state of the pins, after an iteration of any handler (the
  reading of the sensor and the two writes of the branch taken) at most one of \<open>D1\<close> and
  \<open>D2\<close> is high: the outputs show the stop, the increasing-distance or the
  decreasing-distance command. The same holds for the \<open>if\<close> chain alone, and \<open>Stop\<close>
  leaves both low.
\<close>

theorem outputs_mutually_exclusive:
  "(pins (fst (seek_iteration t echo st)) D1 = LOW \<or>
    pins (fst (seek_iteration t echo st)) D2 = LOW) \<and>
   (stopped (fst (seek_iteration t echo st)) \<or> increasing (fst (seek_iteration t echo st)) \<or>
    decreasing (fst (seek_iteration t echo st))) \<and>
   (pins (fst (seek_body t st)) D1 = LOW \<or> pins (fst (seek_body t st)) D2 = LOW) \<and>
   stopped (Stop st)"
  by (cases t) (simp_all add: iteration_defs body_defs command_defs Stop_def Let_def server_send_def)

text \<open>
  The statement is about the pins once both writes of a branch are done. Between the two
  writes it need not hold: the branches of \<open>Backward\<close> and \<open>Left\<close> for a sample above the
  band write \<open>D1\<close> high before \<open>D2\<close> low, so coming from the increasing-distance command
  both pins are high after the first write.
\<close>

lemma reversal_first_write:
  assumes "increasing st"
  shows "pins (digitalWrite D1 HIGH st) D1 = HIGH \<and> pins (digitalWrite D1 HIGH st) D2 = HIGH"
  using assms by (simp add: increasing_def)

section \<open>The sensor reading\<close>

text \<open>
  With no echo (\<open>pulseIn\<close> returns 0) the product \<open>duration * SOUND_VELOCITY / 2\<close> is 0,
  and \<open>distance()\<close> returns \<open>-2.5\<close>.
\<close>

theorem distance_has_offset:
  "fst (distance (\<lambda>_. 0) boot) = - 2.5 \<and>
   real_of_int (sint ((\<lambda>_. 0 :: 32 word) (pulses boot))) * SOUND_VELOCITY / 2 = 0"
  by (simp add: distance_def Let_def distance_of_pulse_def SOUND_VELOCITY_def digitalWrite_def)

text \<open>
  Claim C8, amended. \<open>distance()\<close> returns the pulse duration times 0.034, halved, less
  the fixed offset 2.5; the value returned is the one left in \<open>distanceCm\<close>, and
  \<open>duration\<close> holds the pulse that was read. A pulse duration of 0 gives \<open>-2.5\<close>, a
  negative value.
\<close>

theorem distance_conversion:
  "fst (distance echo st) = real_of_int (sint (echo (pulses st))) * 0.034 / 2 - 2.5 \<and>
   distanceCm (snd (distance echo st)) = fst (distance echo st) \<and>
   duration (snd (distance echo st)) = echo (pulses st) \<and>
   (echo (pulses st) = 0 \<longrightarrow> fst (distance echo st) = - 2.5 \<and> fst (distance echo st) \<le> 0)"
  by (simp add: distance_def Let_def distance_of_pulse_def SOUND_VELOCITY_def digitalWrite_def)

theorem distance_conversion_witness:
  "(\<lambda>_. 0 :: 32 word) (pulses boot) = 0 \<and> fst (distance (\<lambda>_. 0) boot) = - 2.5 \<and>
   fst (distance (\<lambda>_. 0) boot) \<le> 0"
  using distance_conversion [of "\<lambda>_. 0" boot]
  by simp

section \<open>The stop route\<close>

text \<open>
  Claim C9. Whatever the state before, \<open>Stop\<close> leaves \<open>D1\<close> and \<open>D2\<close> low and the
  fragment "motor 1 Status : Off" in \<open>page2\<close>; it does not read the sensor.
\<close>

theorem Stop_drives_outputs_low:
  "pins (Stop st) D1 = LOW \<and> pins (Stop st) D2 = LOW \<and>
   page2 (Stop st) = ''<center><p> motor 1 Status : Off</p></center>'' \<and>
   pulses (Stop st) = pulses st"
  by (simp add: Stop_def Let_def server_send_def)

section \<open>The status message\<close>

lemma seek_Some_message:
  assumes "seek t echo st = Some r"
  shows "page2 r = status_message t \<and>
         last (responses r) = (200, ''text/html'', page r @ status_message t)"
  using assms
  by (cases t) (auto simp: Forward_def Backward_def Left_def report_def server_send_def Let_def)

text \<open>
  Claim C10. Whenever a handler returns, the fragment it reports is the fixed message of its
  target: two returning runs of the same target, on any two sensors and from any two
  states, end with the same \<open>page2\<close>, and the last response sent is the page followed by
  that message. In particular, when the next sample is non-positive \<open>Left\<close> returns after
  that one reading and reports that the lift has reached the Second Floor.
\<close>

theorem status_message_fixed:
  "(seek t e1 s1 = Some r1 \<and> seek t e2 s2 = Some r2 \<longrightarrow>
      page2 r1 = page2 r2 \<and> page2 r1 = status_message t \<and>
      last (responses r1) = (200, ''text/html'', page r1 @ status_message t)) \<and>
   (distance_of_pulse (e (pulses s)) \<le> 0 \<longrightarrow>
      (\<exists>r. Left e s = Some r \<and> pulses r = Suc (pulses s) \<and>
           page2 r = ''<center><p> Lift Status : Lift has reached the Second Floor </p></center>''))"
proof (intro conjI impI)
  assume a: "seek t e1 s1 = Some r1 \<and> seek t e2 s2 = Some r2"
  then have "page2 r1 = status_message t" "page2 r2 = status_message t"
    using seek_Some_message [of t e1 s1 r1] seek_Some_message [of t e2 s2 r2] by simp_all
  then show "page2 r1 = page2 r2" "page2 r1 = status_message t" by simp_all
  from a show "last (responses r1) = (200, ''text/html'', page r1 @ status_message t)"
    using seek_Some_message [of t e1 s1 r1] by simp
next
  assume d: "distance_of_pulse (e (pulses s)) \<le> 0"
  then have i: "snd (Left_iteration e s) = Break"
    by (simp add: Left_iteration_def Left_body_def)
  have "Left_loop e s = Some (fst (Left_iteration e s))"
    using i by (subst Left_loop.simps) (simp add: split_beta)
  then show "\<exists>r. Left e s = Some r \<and> pulses r = Suc (pulses s) \<and>
           page2 r = ''<center><p> Lift Status : Lift has reached the Second Floor </p></center>''"
    using d by (simp add: Left_def report_def server_send_def Let_def Left_iteration_def Left_body_def)
qed

text \<open>
  Two runs of the Second-floor handler: one with no echo, which leaves through the last
  branch, and one with an echo of 2383 microseconds (38.011 cm), which arrives in the band.
\<close>

theorem status_message_fixed_witness:
  "seek Second (\<lambda>_. 0) boot \<noteq> None \<and> seek Second (\<lambda>_. 2383) boot \<noteq> None \<and>
   page2 (the (seek Second (\<lambda>_. 0) boot)) = page2 (the (seek Second (\<lambda>_. 2383) boot)) \<and>
   page2 (the (seek Second (\<lambda>_. 0) boot)) = status_message Second \<and>
   distance_of_pulse ((\<lambda>_. 0) (pulses boot)) \<le> 0 \<and>
   map_option page2 (Left (\<lambda>_. 0) boot) = Some (status_message Second)"
proof -
  have "snd (Left_iteration (\<lambda>_. 2383) boot) = Break"
    by (simp add: Left_iteration_def Left_body_def distance_of_pulse_def SOUND_VELOCITY_def)
  then have "Left_loop (\<lambda>_. 2383) boot = Some (fst (Left_iteration (\<lambda>_. 2383) boot))"
    by (subst Left_loop.simps) (simp add: split_beta)
  then obtain r2 where r2: "seek Second (\<lambda>_. 2383) boot = Some r2"
    by (simp add: Left_def)
  obtain r1 where r1: "seek Second (\<lambda>_. 0) boot = Some r1"
    by (simp add: Left_def Left_loop_no_echo)
  have d: "distance_of_pulse ((\<lambda>_. 0) (pulses boot)) \<le> 0"
    by (simp add: distance_of_no_echo)
  show ?thesis
    using status_message_fixed [of Second "\<lambda>_. 0" boot r1 "\<lambda>_. 2383" boot r2 "\<lambda>_. 0" boot] r1 r2 d
    by auto
qed

end
